theory Spec2Isabelle
  imports Complex_Main
begin

section \<open>Strings\<close>

text \<open>
  Python's \<^verbatim>\<open>str\<close> is modelled as \<^typ>\<open>string\<close> over ASCII. \<^verbatim>\<open>str.strip()\<close> removes the
  leading and the trailing run of whitespace characters (for ASCII: tab, line feed,
  vertical tab, form feed, carriage return, the four separators 0x1C..0x1F and the
  space); \<^verbatim>\<open>str.upper()\<close> maps \<open>a..z\<close> to \<open>A..Z\<close> and leaves every other ASCII
  character alone.
\<close>

definition is_space :: "char \<Rightarrow> bool" where
  "is_space c = (c \<in> set [CHR 0x09, CHR 0x0A, CHR 0x0B, CHR 0x0C, CHR 0x0D,
                            CHR 0x1C, CHR 0x1D, CHR 0x1E, CHR 0x1F, CHR '' ''])"

definition ascii_lowercase :: string where
  "ascii_lowercase = ''abcdefghijklmnopqrstuvwxyz''"

definition ascii_uppercase :: string where
  "ascii_uppercase = ''ABCDEFGHIJKLMNOPQRSTUVWXYZ''"

definition upper_char :: "char \<Rightarrow> char" where
  "upper_char c = (case map_of (zip ascii_lowercase ascii_uppercase) c of
                     None \<Rightarrow> c | Some u \<Rightarrow> u)"

definition upper :: "string \<Rightarrow> string" where
  "upper s = map upper_char s"

definition strip :: "string \<Rightarrow> string" where
  "strip s = rev (dropWhile is_space (rev (dropWhile is_space s)))"

section \<open>Messages shown to the user\<close>

text \<open>\<^verbatim>\<open>st.error\<close>, \<^verbatim>\<open>st.warning\<close> and \<^verbatim>\<open>st.success\<close> print a message and return;
  the model collects them in the order they are issued.\<close>

datatype notice = StError string | StWarning string | StSuccess string

section \<open>The metric store and its file\<close>

type_synonym dict = "string \<rightharpoonup> string"

text \<open>The three entries of \<^verbatim>\<open>st.session_state\<close> that make up the store.\<close>

record store =
  saved_metrics :: "string list"
  saved_metrics_names :: dict
  saved_metrics_groups :: dict

definition empty_store :: store where
  "empty_store = \<lparr>saved_metrics = [], saved_metrics_names = Map.empty,
                  saved_metrics_groups = Map.empty\<rparr>"

text \<open>
  The object read by \<^verbatim>\<open>json.load\<close> from \<^verbatim>\<open>saved_metrics.json\<close>: each of the three
  keys is present (\<open>Some\<close>) or absent (\<open>None\<close>). \<^verbatim>\<open>json.dump\<close> followed by
  \<^verbatim>\<open>json.load\<close> is the library's business; the file is modelled by the object it
  holds. A file that cannot be opened or decoded, or whose top level is no object, makes
  the body of \<^verbatim>\<open>load_metrics_from_file\<close> raise: \<open>Unreadable e\<close>, with the text of
  the exception.
\<close>

record data =
  json_saved_metrics :: "string list option"
  json_saved_metrics_names :: "dict option"
  json_saved_metrics_groups :: "dict option"

datatype storage = Missing | Unreadable string | Document data

text \<open>
  What the operating system does with the write: it goes through, or \<^verbatim>\<open>open\<close> or
  \<^verbatim>\<open>json.dump\<close> raises with some text, leaving the file in some state.
\<close>

datatype write_outcome = Written | WriteFailed string storage

definition save_metrics_to_file ::
  "write_outcome \<Rightarrow> string list \<Rightarrow> dict \<Rightarrow> dict option \<Rightarrow> storage \<times> notice list" where
  "save_metrics_to_file w metrics metrics_names metrics_groups =
     (case w of
        Written \<Rightarrow>
          (Document \<lparr>json_saved_metrics = Some metrics,
                     json_saved_metrics_names = Some metrics_names,
                     json_saved_metrics_groups =
                       Some (case metrics_groups of None \<Rightarrow> Map.empty | Some g \<Rightarrow> g)\<rparr>,
           [])
      | WriteFailed e left \<Rightarrow> (left, [StError (''Could not save metrics: '' @ e)]))"

text \<open>In \<^verbatim>\<open>metrics_groups or {}\<close> an empty dictionary is replaced by a new empty
  dictionary as well, which is the same map.\<close>

definition load_metrics_from_file ::
  "storage \<Rightarrow> (string list \<times> dict \<times> dict) \<times> notice list" where
  "load_metrics_from_file disk =
     (case disk of
        Document d \<Rightarrow>
          (((case json_saved_metrics d of None \<Rightarrow> [] | Some v \<Rightarrow> v),
            (case json_saved_metrics_names d of None \<Rightarrow> Map.empty | Some v \<Rightarrow> v),
            (case json_saved_metrics_groups d of None \<Rightarrow> Map.empty | Some v \<Rightarrow> v)),
           [])
      | Missing \<Rightarrow> (([], Map.empty, Map.empty), [])
      | Unreadable e \<Rightarrow>
          (([], Map.empty, Map.empty), [StError (''Could not load saved metrics: '' @ e)]))"

text \<open>The first run of \<^verbatim>\<open>main\<close> fills the session state from the file.\<close>

definition init_session :: "storage \<Rightarrow> store \<times> notice list" where
  "init_session disk =
     (case load_metrics_from_file disk of
        ((metrics, names, groups), msgs) \<Rightarrow>
          (\<lparr>saved_metrics = metrics, saved_metrics_names = names,
            saved_metrics_groups = groups\<rparr>, msgs))"

text \<open>Every mutation ends with the same call, on the three entries of the session.\<close>

definition persist :: "write_outcome \<Rightarrow> store \<Rightarrow> storage \<times> notice list" where
  "persist w s = save_metrics_to_file w (saved_metrics s) (saved_metrics_names s)
                   (Some (saved_metrics_groups s))"

subsection \<open>Adding a metric\<close>

text \<open>The group chosen in the form: one of the existing groups (or the entry
  \<^verbatim>\<open>"None"\<close>), or a new name typed by the user.\<close>

datatype group_input_type = Select_existing | Create_new

definition metric_group ::
  "group_input_type \<Rightarrow> string list \<Rightarrow> string \<Rightarrow> string \<Rightarrow> string option" where
  "metric_group input_type existing_groups selected_group new_group_name =
     (if input_type = Select_existing \<and> existing_groups \<noteq> [] then
        (if selected_group = ''None'' then None else Some selected_group)
      else if input_type = Create_new then
        (if strip new_group_name = [] then None else Some new_group_name)
      else None)"

text \<open>
  \<^verbatim>\<open>series_info and series_info.get('title')\<close>: the title, when the dictionary has a
  non-empty one (a dictionary with a title is not empty).
\<close>

definition title_of :: "dict \<Rightarrow> string option" where
  "title_of series_info =
     (case series_info ''title'' of
        None \<Rightarrow> None
      | Some t \<Rightarrow> if t = [] then None else Some t)"

text \<open>
  The handler of the \<^verbatim>\<open>Save\<close> button (key \<^verbatim>\<open>save_metric\<close>, lines 465 to 496 of
  \<^verbatim>\<open>app.py\<close>). \<open>chosen_group\<close> is the variable \<^verbatim>\<open>metric_group\<close> of the source,
  \<open>series_info\<close> is what \<^verbatim>\<open>get_series_info(metric_upper)\<close> returned, \<open>None\<close> when
  the call raised (the bare \<^verbatim>\<open>except\<close>). The result is the new session store, the new
  file and the messages. Closing the form and rerunning the script are left out.
\<close>

definition save_metric ::
  "string \<Rightarrow> string option \<Rightarrow> dict option \<Rightarrow> write_outcome \<Rightarrow> store \<Rightarrow> storage
   \<Rightarrow> store \<times> storage \<times> notice list" where
  "save_metric new_metric chosen_group series_info w s disk =
     (if strip new_metric \<noteq> [] then
        (let metric_upper = upper (strip new_metric) in
         if metric_upper \<notin> set (saved_metrics s) then
           (let s1 = s\<lparr>saved_metrics := saved_metrics s @ [metric_upper]\<rparr>;
                s2 = (case chosen_group of
                        None \<Rightarrow> s1
                      | Some g \<Rightarrow>
                          if g \<noteq> [] \<and> strip g \<noteq> [] then
                            s1\<lparr>saved_metrics_groups :=
                                 (saved_metrics_groups s1)(metric_upper \<mapsto> strip g)\<rparr>
                          else s1);
                name = (case series_info of
                          None \<Rightarrow> metric_upper
                        | Some info \<Rightarrow>
                            (case title_of info of
                               Some t \<Rightarrow> t
                             | None \<Rightarrow> metric_upper));
                s3 = s2\<lparr>saved_metrics_names :=
                          (saved_metrics_names s2)(metric_upper \<mapsto> name)\<rparr>
            in case persist w s3 of
                 (disk', msgs) \<Rightarrow>
                   (s3, disk', msgs @ [StSuccess (''Added '' @ metric_upper @ ''!'')]))
         else (s, disk, [StWarning (metric_upper @ '' already saved!'')]))
      else (s, disk, [StError ''Please enter a metric ID'']))"

subsection \<open>Removing a metric\<close>

datatype py_error = ValueError

text \<open>
  The handler of the delete button of \<open>metric\<close> (lines 543 to 556 of \<^verbatim>\<open>app.py\<close>).
  \<^verbatim>\<open>list.remove\<close> deletes the first occurrence and raises \<^verbatim>\<open>ValueError\<close> when there
  is none; nothing in \<^verbatim>\<open>main\<close> catches it. The two dictionaries are tested for the key
  before \<^verbatim>\<open>del\<close>.
\<close>

definition delete_metric ::
  "string \<Rightarrow> write_outcome \<Rightarrow> store \<Rightarrow> py_error + store \<times> storage \<times> notice list" where
  "delete_metric metric w s =
     (if metric \<notin> set (saved_metrics s) then Inl ValueError
      else
        (let s1 = s\<lparr>saved_metrics := remove1 metric (saved_metrics s)\<rparr>;
             s2 = (if saved_metrics_groups s1 metric \<noteq> None
                   then s1\<lparr>saved_metrics_groups := (saved_metrics_groups s1)(metric := None)\<rparr>
                   else s1);
             s3 = (if saved_metrics_names s2 metric \<noteq> None
                   then s2\<lparr>saved_metrics_names := (saved_metrics_names s2)(metric := None)\<rparr>
                   else s2)
         in case persist w s3 of (disk', msgs) \<Rightarrow> Inr (s3, disk', msgs)))"

subsection \<open>Showing a metric\<close>

text \<open>\<^verbatim>\<open>saved_metrics_groups.get(metric)\<close> and the text of the metric's button.\<close>

definition group_name :: "store \<Rightarrow> string \<Rightarrow> string option" where
  "group_name s metric = saved_metrics_groups s metric"

definition display_name :: "store \<Rightarrow> string \<Rightarrow> string" where
  "display_name s metric =
     (case saved_metrics_names s metric of None \<Rightarrow> metric | Some n \<Rightarrow> n)"

definition button_text :: "store \<Rightarrow> string \<Rightarrow> string" where
  "button_text s metric =
     (case group_name s metric of
        None \<Rightarrow> display_name s metric
      | Some g \<Rightarrow>
          if g \<noteq> [] then display_name s metric @ '' ['' @ g @ '']''
          else display_name s metric)"

section \<open>The series client\<close>

text \<open>
  \<^verbatim>\<open>FredAPI.get_series_data\<close> sends one request and turns the answer into a data
  frame. The request carries the identifier and the date bounds that are given
  (\<^verbatim>\<open>if start_date:\<close> leaves out \<^verbatim>\<open>None\<close> and the empty string; the API key and the
  file type are the same in every request and left out). The API is a function from
  requests to what \<^verbatim>\<open>requests.get\<close>, \<^verbatim>\<open>raise_for_status\<close>, \<^verbatim>\<open>response.json()\<close> and
  the test \<^verbatim>\<open>'observations' in data\<close> make of its answer: \<open>Raises e\<close> when one of them
  raises, with the class of the exception as the two handlers tell them apart and its
  text; \<open>Json None\<close> when the test is false; \<open>Json (Some observations)\<close> when the
  answer has observations, each with its date and its value as the API sends them, as
  strings.
\<close>

record params =
  series_id :: string
  observation_start :: "string option"
  observation_end :: "string option"

record raw_observation =
  obs_date :: string
  obs_value :: string

datatype exn = RequestException string | Exception string

datatype response = Raises exn | Json "raw_observation list option"

definition truthy :: "string option \<Rightarrow> string option" where
  "truthy x = (case x of None \<Rightarrow> None | Some t \<Rightarrow> if t = [] then None else Some t)"

definition request_params :: "string \<Rightarrow> string option \<Rightarrow> string option \<Rightarrow> params" where
  "request_params sid start_date end_date =
     \<lparr>series_id = sid, observation_start = truthy start_date,
      observation_end = truthy end_date\<rparr>"

text \<open>
  A data frame is the list of its rows (date, value). \<^verbatim>\<open>pd.to_datetime\<close> converts
  the whole column and raises at the first string it cannot read;
  \<^verbatim>\<open>pd.to_numeric(errors='coerce')\<close> never raises and yields NaN (\<open>None\<close>) for a
  string that is no number; \<^verbatim>\<open>dropna\<close> deletes the rows with NaN. The two parsers
  are pandas' and are parameters of the model; values are real numbers.
  \<^verbatim>\<open>sort_values\<close> is modelled by the insertion sort \<open>sort_key\<close>; pandas does not
  fix the order of rows with the same date, the model keeps them in their order.
\<close>

fun to_datetime_column :: "(string \<Rightarrow> string + 'd) \<Rightarrow> string list \<Rightarrow> string + 'd list" where
  "to_datetime_column to_datetime [] = Inr []"
| "to_datetime_column to_datetime (x # xs) =
     (case to_datetime x of
        Inl e \<Rightarrow> Inl e
      | Inr d \<Rightarrow>
          (case to_datetime_column to_datetime xs of
             Inl e \<Rightarrow> Inl e
           | Inr ds \<Rightarrow> Inr (d # ds)))"

fun dropna :: "('d \<times> real option) list \<Rightarrow> ('d \<times> real) list" where
  "dropna [] = []"
| "dropna ((d, None) # rows) = dropna rows"
| "dropna ((d, Some v) # rows) = (d, v) # dropna rows"

definition observations_frame ::
  "(string \<Rightarrow> string + 'd::linorder) \<Rightarrow> (string \<Rightarrow> real option) \<Rightarrow> raw_observation list
   \<Rightarrow> exn + ('d \<times> real) list" where
  "observations_frame to_datetime to_numeric observations =
     (if observations \<noteq> [] then
        (case to_datetime_column to_datetime (map obs_date observations) of
           Inl e \<Rightarrow> Inl (Exception e)
         | Inr dates \<Rightarrow>
             Inr (sort_key fst
                    (dropna (zip dates (map (to_numeric \<circ> obs_value) observations)))))
      else Inr [])"

text \<open>The body of the \<^verbatim>\<open>try\<close>, then the function with its two handlers.\<close>

definition get_series_data_try ::
  "(params \<Rightarrow> response) \<Rightarrow> (string \<Rightarrow> string + 'd::linorder) \<Rightarrow> (string \<Rightarrow> real option)
   \<Rightarrow> string \<Rightarrow> string option \<Rightarrow> string option \<Rightarrow> exn + ('d \<times> real) list" where
  "get_series_data_try api to_datetime to_numeric sid start_date end_date =
     (case api (request_params sid start_date end_date) of
        Raises e \<Rightarrow> Inl e
      | Json None \<Rightarrow> Inr []
      | Json (Some observations) \<Rightarrow> observations_frame to_datetime to_numeric observations)"

definition get_series_data ::
  "(params \<Rightarrow> response) \<Rightarrow> (string \<Rightarrow> string + 'd::linorder) \<Rightarrow> (string \<Rightarrow> real option)
   \<Rightarrow> string \<Rightarrow> string option \<Rightarrow> string option \<Rightarrow> ('d \<times> real) list \<times> notice list" where
  "get_series_data api to_datetime to_numeric sid start_date end_date =
     (case get_series_data_try api to_datetime to_numeric sid start_date end_date of
        Inr df \<Rightarrow> (df, [])
      | Inl (RequestException e) \<Rightarrow> ([], [StError (''Error fetching data: '' @ e)])
      | Inl (Exception e) \<Rightarrow> ([], [StError (''Error processing data: '' @ e)]))"

section \<open>The summary table\<close>

text \<open>
  One row of the table, for one saved metric. A cell is a text, or a number printed by
  \<^verbatim>\<open>f"{x:.2f}"\<close> (\<open>Fixed2 x\<close>) or by \<^verbatim>\<open>f"{x:.2f}%"\<close> (\<open>Percent2 x\<close>), or a date
  printed by \<^verbatim>\<open>strftime('%Y-%m-%d')\<close>. \<open>ytd_start\<close> is the first of January of the
  current year, \<open>metric_df\<close> and \<open>metric_info\<close> are what the client returned for the
  metric (lines 825 to 906 of \<^verbatim>\<open>app.py\<close>). Nothing in this computation raises, so the
  row of \<^verbatim>\<open>Error\<close> cells of the handler is left out.
\<close>

datatype 'd cell = Text string | Fixed2 real | Percent2 real | Ymd 'd

record 'd summary_row =
  Metric_Name :: string
  Current_Value :: "'d cell"
  Latest_Date :: "'d cell"
  Units :: string
  Frequency :: string
  Sequential_Change :: "'d cell"
  YTD_Change :: "'d cell"

definition get_or :: "dict \<Rightarrow> string \<Rightarrow> string \<Rightarrow> string" where
  "get_or d k fallback = (case d k of None \<Rightarrow> fallback | Some v \<Rightarrow> v)"

definition summary_row ::
  "bool \<Rightarrow> 'd::linorder \<Rightarrow> dict \<Rightarrow> string \<Rightarrow> ('d \<times> real) list \<Rightarrow> dict \<Rightarrow> 'd summary_row" where
  "summary_row use_percentage ytd_start names metric metric_df metric_info =
     (if metric_df \<noteq> [] \<and> length metric_df \<ge> 2 then
        (let df = sort_key fst metric_df;
             latest_value = snd (last df);
             latest_date = fst (last df);
             previous_value = snd (df ! (length df - 2));
             sequential_format =
               (if use_percentage \<and> previous_value \<noteq> 0
                then Percent2 (((latest_value - previous_value) / previous_value) * 100)
                else Fixed2 (latest_value - previous_value));
             ytd_df = filter (\<lambda>row. fst row \<ge> ytd_start) df;
             ytd_format =
               (if ytd_df \<noteq> [] then
                  (let ytd_start_value = snd (hd ytd_df) in
                   if use_percentage \<and> ytd_start_value \<noteq> 0
                   then Percent2 (((latest_value - ytd_start_value) / ytd_start_value) * 100)
                   else Fixed2 (latest_value - ytd_start_value))
                else Text ''N/A'')
         in \<lparr>Metric_Name = get_or names metric metric,
             Current_Value = Fixed2 latest_value,
             Latest_Date = Ymd latest_date,
             Units = get_or metric_info ''units'' ''N/A'',
             Frequency = get_or metric_info ''frequency'' ''N/A'',
             Sequential_Change = sequential_format,
             YTD_Change = ytd_format\<rparr>)
      else
        \<lparr>Metric_Name = get_or names metric metric,
         Current_Value = (if metric_df \<noteq> [] then Fixed2 (snd (last metric_df)) else Text ''N/A''),
         Latest_Date = (if metric_df \<noteq> [] then Ymd (fst (last metric_df)) else Text ''N/A''),
         Units = get_or metric_info ''units'' ''N/A'',
         Frequency = get_or metric_info ''frequency'' ''N/A'',
         Sequential_Change = Text ''N/A'',
         YTD_Change = Text ''N/A''\<rparr>)"

section \<open>Facts about strings\<close>

lemma is_space_upper_char: "is_space (upper_char c) = is_space c"
  by (simp add: is_space_def upper_char_def ascii_lowercase_def ascii_uppercase_def)

lemma upper_char_not_lowercase: "upper_char c \<notin> set ascii_lowercase"
  by (simp add: upper_char_def ascii_lowercase_def ascii_uppercase_def)

lemma upper_Nil_iff: "upper s = [] \<longleftrightarrow> s = []"
  by (simp add: upper_def)

lemma upper_no_lowercase: "\<forall>c\<in>set (upper s). c \<notin> set ascii_lowercase"
  by (simp add: upper_def upper_char_not_lowercase)

lemma hd_upper: "s \<noteq> [] \<Longrightarrow> hd (upper s) = upper_char (hd s)"
  by (simp add: upper_def hd_map)

lemma last_upper: "s \<noteq> [] \<Longrightarrow> last (upper s) = upper_char (last s)"
  by (simp add: upper_def last_map)

lemma dropWhile_space_upper:
  "dropWhile is_space (map upper_char s) = map upper_char (dropWhile is_space s)"
  by (induction s) (simp_all add: is_space_upper_char)

text \<open>Stripping and uppercasing commute, since uppercasing keeps whitespace apart.\<close>

lemma upper_strip: "upper (strip s) = strip (upper s)"
  by (simp add: upper_def strip_def rev_map dropWhile_space_upper)

lemma strip_prefix: "\<exists>t. dropWhile is_space s = strip s @ t"
proof -
  let ?ys = "dropWhile is_space s"
  have "rev (takeWhile is_space (rev ?ys) @ dropWhile is_space (rev ?ys)) = ?ys"
    by (simp only: takeWhile_dropWhile_id rev_rev_ident)
  then have "rev (dropWhile is_space (rev ?ys)) @ rev (takeWhile is_space (rev ?ys)) = ?ys"
    by (simp only: rev_append)
  then have "?ys = strip s @ rev (takeWhile is_space (rev ?ys))"
    by (simp only: strip_def)
  then show ?thesis by blast
qed

lemma strip_ends:
  assumes "strip s \<noteq> []"
  shows "\<not> is_space (hd (strip s))" and "\<not> is_space (last (strip s))"
proof -
  obtain t where t: "dropWhile is_space s = strip s @ t" using strip_prefix by blast
  with assms have ne: "dropWhile is_space s \<noteq> []" by simp
  have "hd (dropWhile is_space s) = hd (strip s)" using t assms by (metis hd_append2)
  then show "\<not> is_space (hd (strip s))" using hd_dropWhile [OF ne] by simp
  have ne2: "dropWhile is_space (rev (dropWhile is_space s)) \<noteq> []"
    using assms unfolding strip_def by (metis rev.simps(1))
  have "last (strip s) = hd (dropWhile is_space (rev (dropWhile is_space s)))"
    unfolding strip_def by (rule last_rev)
  then show "\<not> is_space (last (strip s))" using hd_dropWhile [OF ne2] by simp
qed

lemma dropWhile_id: "xs = [] \<or> \<not> P (hd xs) \<Longrightarrow> dropWhile P xs = xs"
  by (cases xs) auto

lemma strip_idem: "strip (strip s) = strip s"
proof (cases "strip s = []")
  case True
  then show ?thesis unfolding strip_def [of "strip s"] by simp
next
  case False
  have a: "dropWhile is_space (strip s) = strip s"
    using strip_ends(1) [OF False] by (simp add: dropWhile_id)
  have "hd (rev (strip s)) = last (strip s)" using False by (simp add: hd_rev)
  then have b: "dropWhile is_space (rev (strip s)) = rev (strip s)"
    using strip_ends(2) [OF False] by (simp add: dropWhile_id)
  show ?thesis
    unfolding strip_def [of "strip s"] using a b by simp
qed

lemma strip_padding:
  assumes l: "\<forall>c\<in>set l. is_space c" and r: "\<forall>c\<in>set r. is_space c"
  shows "strip (l @ x @ r) = strip x"
proof -
  have 1: "dropWhile is_space (l @ x @ r) = dropWhile is_space (x @ r)"
    using l by simp
  show ?thesis
  proof (cases "\<forall>c\<in>set x. is_space c")
    case True
    then have a: "dropWhile is_space (x @ r) = []" and b: "dropWhile is_space x = []"
      using r by auto
    show ?thesis unfolding strip_def 1 a b by simp
  next
    case False
    then obtain c where "c \<in> set x" "\<not> is_space c" by blast
    then have "dropWhile is_space (x @ r) = dropWhile is_space x @ r"
      by simp
    then have "rev (dropWhile is_space (x @ r)) = rev r @ rev (dropWhile is_space x)"
      by simp
    moreover have "dropWhile is_space (rev r @ rev (dropWhile is_space x))
                 = dropWhile is_space (rev (dropWhile is_space x))"
      by (rule dropWhile_append2) (use r in simp)
    ultimately have "dropWhile is_space (rev (dropWhile is_space (x @ r)))
             = dropWhile is_space (rev (dropWhile is_space x))"
      by (simp only:)
    then show ?thesis unfolding strip_def 1 by (simp only:)
  qed
qed

lemma normalize_padding_case:
  assumes "\<forall>c\<in>set (l @ r). is_space c" and "upper y = upper x"
  shows "upper (strip (l @ y @ r)) = upper (strip x)"
proof -
  have "strip (l @ y @ r) = strip y" using assms(1) by (simp add: strip_padding)
  then show ?thesis using assms(2) by (simp add: upper_strip)
qed

lemma normal_form_ends:
  assumes "strip x \<noteq> []"
  shows "\<not> is_space (hd (upper (strip x)))" and "\<not> is_space (last (upper (strip x)))"
  using assms strip_ends [OF assms] by (simp_all add: hd_upper last_upper is_space_upper_char)

lemma upper_char_idem: "upper_char (upper_char c) = upper_char c"
  by (simp add: upper_char_def ascii_lowercase_def ascii_uppercase_def)

lemma upper_idem: "upper (upper s) = upper s"
  by (simp add: upper_def upper_char_idem)

text \<open>Stripping and uppercasing a string that is already stripped and uppercased
  changes nothing.\<close>

lemma normalize_idem: "upper (strip (upper (strip x))) = upper (strip x)"
proof -
  have "upper (strip (upper (strip x))) = strip (upper (upper (strip x)))"
    by (rule upper_strip)
  also have "\<dots> = strip (upper (strip x))" by (simp only: upper_idem)
  also have "\<dots> = strip (strip (upper x))" by (simp only: upper_strip)
  also have "\<dots> = strip (upper x)" by (rule strip_idem)
  also have "\<dots> = upper (strip x)" by (simp only: upper_strip)
  finally show ?thesis .
qed

text \<open>Values used by the examples.\<close>

lemma strip_GDP: "strip ''GDP'' = ''GDP''"
  by (simp add: strip_def is_space_def)

lemma upper_GDP: "upper ''GDP'' = ''GDP''"
  by (simp add: upper_def upper_char_def ascii_lowercase_def ascii_uppercase_def)

lemma strip_gdp_padded: "strip '' gdp'' = ''gdp''"
  by (simp add: strip_def is_space_def)

lemma upper_gdp: "upper ''gdp'' = ''GDP''"
  by (simp add: upper_def upper_char_def ascii_lowercase_def ascii_uppercase_def)

section \<open>Properties of the metric store\<close>

lemma saved_metrics_save_metric:
  "saved_metrics (fst (save_metric x g i w s d)) =
     (if strip x \<noteq> [] \<and> upper (strip x) \<notin> set (saved_metrics s)
      then saved_metrics s @ [upper (strip x)] else saved_metrics s)"
  by (simp add: save_metric_def Let_def split: option.splits prod.splits)

lemma save_metric_cong:
  assumes "upper (strip y) = upper (strip x)"
  shows "save_metric y g i w s d = save_metric x g i w s d"
proof -
  have "strip y = [] \<longleftrightarrow> strip x = []"
    using assms upper_Nil_iff by metis
  then show ?thesis using assms by (simp add: save_metric_def)
qed

lemma filter_remove1_other: "filter (\<lambda>k. k \<noteq> x) (remove1 x xs) = filter (\<lambda>k. k \<noteq> x) xs"
  by (induction xs) auto

text \<open>
  The identifiers of the store are non-empty, stripped and uppercase: this holds in the
  empty store and is kept by the two handlers.
\<close>

lemma normal_ids_empty_store:
  "\<forall>x\<in>set (saved_metrics empty_store). x \<noteq> [] \<and> upper (strip x) = x"
  by (simp add: empty_store_def)

lemma normal_ids_save_metric:
  assumes "\<forall>x\<in>set (saved_metrics s). x \<noteq> [] \<and> upper (strip x) = x"
    and "save_metric new_metric chosen_group series_info w s disk = (s', disk', msgs)"
  shows "\<forall>x\<in>set (saved_metrics s'). x \<noteq> [] \<and> upper (strip x) = x"
proof -
  have "saved_metrics s'
        = saved_metrics (fst (save_metric new_metric chosen_group series_info w s disk))"
    using assms(2) by simp
  then show ?thesis
    using assms(1) by (auto simp: saved_metrics_save_metric normalize_idem upper_Nil_iff
        split: if_splits)
qed

lemma normal_ids_delete_metric:
  assumes "\<forall>x\<in>set (saved_metrics s). x \<noteq> [] \<and> upper (strip x) = x"
    and "delete_metric metric w s = Inr (s', disk', msgs)"
  shows "\<forall>x\<in>set (saved_metrics s'). x \<noteq> [] \<and> upper (strip x) = x"
  using assms
  by (auto simp: delete_metric_def Let_def split: if_splits prod.splits dest: notin_set_remove1)

text \<open>The duplicate test is made on the stripped, uppercased input: when that form is
  not empty and is in the list, nothing changes and the handler warns.\<close>

lemma readd_is_rejected:
  assumes "strip new_metric \<noteq> []"
    and "upper (strip new_metric) \<in> set (saved_metrics s)"
  shows "save_metric new_metric chosen_group series_info w s disk
         = (s, disk, [StWarning (upper (strip new_metric) @ '' already saved!'')])"
  using assms by (simp add: save_metric_def)

subsection \<open>Persisting and loading\<close>

text \<open>
  C5. For every state of the store, writing it with \<^verbatim>\<open>save_metrics_to_file\<close> and
  reading the file back with \<^verbatim>\<open>load_metrics_from_file\<close> gives the same list of
  identifiers, the same name map and the same group map, and no message; a group
  argument of \<^verbatim>\<open>None\<close> is read back as the empty map. The session filled from the
  file is the store that was persisted.
\<close>

theorem persist_load_roundtrip:
  "load_metrics_from_file (fst (save_metrics_to_file Written metrics names (Some groups)))
     = ((metrics, names, groups), [])
   \<and> load_metrics_from_file (fst (save_metrics_to_file Written metrics names None))
     = ((metrics, names, Map.empty), [])
   \<and> init_session (fst (persist Written s)) = (s, [])"
  by (simp add: persist_def save_metrics_to_file_def load_metrics_from_file_def init_session_def)

text \<open>The round trip at a store whose entries lack a name or a group, and at the empty
  store.\<close>

theorem persist_load_roundtrip_witness:
  "init_session (fst (persist Written
      \<lparr>saved_metrics = [''GDP'', ''UNRATE''],
       saved_metrics_names = [''GDP'' \<mapsto> ''Gross Domestic Product''],
       saved_metrics_groups = [''UNRATE'' \<mapsto> ''Labor'']\<rparr>))
   = (\<lparr>saved_metrics = [''GDP'', ''UNRATE''],
       saved_metrics_names = [''GDP'' \<mapsto> ''Gross Domestic Product''],
       saved_metrics_groups = [''UNRATE'' \<mapsto> ''Labor'']\<rparr>, [])
   \<and> init_session (fst (persist Written empty_store)) = (empty_store, [])"
  using persist_load_roundtrip [where s = "\<lparr>saved_metrics = [''GDP'', ''UNRATE''],
       saved_metrics_names = [''GDP'' \<mapsto> ''Gross Domestic Product''],
       saved_metrics_groups = [''UNRATE'' \<mapsto> ''Labor'']\<rparr>"]
    persist_load_roundtrip [where s = empty_store]
  by blast

text \<open>
  C9. When the file holds an object, \<^verbatim>\<open>load_metrics_from_file\<close> reports nothing; a
  missing \<^verbatim>\<open>saved_metrics\<close> key gives the empty list, a missing
  \<^verbatim>\<open>saved_metrics_names\<close> or \<^verbatim>\<open>saved_metrics_groups\<close> key gives the empty map, each
  independently of the other two, and a key that is present is returned as stored.
\<close>

theorem load_tolerates_missing_keys:
  assumes "load_metrics_from_file (Document d) = ((metrics, names, groups), msgs)"
  shows "msgs = []
    \<and> (json_saved_metrics d = None \<longrightarrow> metrics = [])
    \<and> (json_saved_metrics_names d = None \<longrightarrow> names = Map.empty)
    \<and> (json_saved_metrics_groups d = None \<longrightarrow> groups = Map.empty)
    \<and> (\<forall>v. json_saved_metrics d = Some v \<longrightarrow> metrics = v)
    \<and> (\<forall>v. json_saved_metrics_names d = Some v \<longrightarrow> names = v)
    \<and> (\<forall>v. json_saved_metrics_groups d = Some v \<longrightarrow> groups = v)"
  using assms by (auto simp: load_metrics_from_file_def)

text \<open>A file with the name map only.\<close>

theorem load_tolerates_missing_keys_witness:
  "load_metrics_from_file (Document \<lparr>json_saved_metrics = None,
       json_saved_metrics_names = Some [''GDP'' \<mapsto> ''Gross Domestic Product''],
       json_saved_metrics_groups = None\<rparr>)
   = (([], [''GDP'' \<mapsto> ''Gross Domestic Product''], Map.empty), [])"
proof -
  let ?d = "\<lparr>json_saved_metrics = None,
       json_saved_metrics_names = Some [''GDP'' \<mapsto> ''Gross Domestic Product''],
       json_saved_metrics_groups = None\<rparr>"
  obtain metrics names groups msgs
    where h: "load_metrics_from_file (Document ?d) = ((metrics, names, groups), msgs)"
    by (metis prod.exhaust)
  from load_tolerates_missing_keys [OF h] show ?thesis
    unfolding h by simp
qed

subsection \<open>Adding\<close>

text \<open>
  C2, as the code has it. Adding \<^verbatim>\<open>"GDP"\<close> with no group to the empty store gives the
  identifier list \<^verbatim>\<open>["GDP"]\<close> and an empty group map, and the lookup of the group of
  \<^verbatim>\<open>"GDP"\<close> finds none, so that the button shows the display name alone. The name map
  is not empty: it maps \<^verbatim>\<open>"GDP"\<close> to the title fetched for it, or to \<^verbatim>\<open>"GDP"\<close> itself
  when no title came back.
\<close>

theorem add_gdp_to_empty_store:
  assumes "save_metric ''GDP'' None series_info w empty_store disk = (s', disk', msgs)"
  shows "saved_metrics s' = [''GDP'']
   \<and> saved_metrics_names s' =
       [''GDP'' \<mapsto> (case series_info of None \<Rightarrow> ''GDP''
                      | Some info \<Rightarrow> (case title_of info of Some t \<Rightarrow> t | None \<Rightarrow> ''GDP''))]
   \<and> saved_metrics_groups s' = Map.empty
   \<and> group_name s' ''GDP'' = None
   \<and> button_text s' ''GDP'' = display_name s' ''GDP''
   \<and> display_name s' ''GDP'' =
       (case series_info of None \<Rightarrow> ''GDP''
        | Some info \<Rightarrow> (case title_of info of Some t \<Rightarrow> t | None \<Rightarrow> ''GDP''))"
  using assms
  by (auto simp: save_metric_def empty_store_def strip_GDP upper_GDP Let_def group_name_def
      display_name_def button_text_def split: prod.splits option.splits)

text \<open>The same with an API answer that has no title and a write that goes through.\<close>

theorem add_gdp_to_empty_store_witness:
  "save_metric ''GDP'' None (Some Map.empty) Written empty_store Missing =
     (\<lparr>saved_metrics = [''GDP''], saved_metrics_names = [''GDP'' \<mapsto> ''GDP''],
       saved_metrics_groups = Map.empty\<rparr>,
      Document \<lparr>json_saved_metrics = Some [''GDP''],
                json_saved_metrics_names = Some [''GDP'' \<mapsto> ''GDP''],
                json_saved_metrics_groups = Some Map.empty\<rparr>,
      [StSuccess ''Added GDP!''])
   \<and> saved_metrics_names \<lparr>saved_metrics = [''GDP''], saved_metrics_names = [''GDP'' \<mapsto> ''GDP''],
       saved_metrics_groups = Map.empty\<rparr> = [''GDP'' \<mapsto> ''GDP'']
   \<and> group_name \<lparr>saved_metrics = [''GDP''], saved_metrics_names = [''GDP'' \<mapsto> ''GDP''],
       saved_metrics_groups = Map.empty\<rparr> ''GDP'' = None
   \<and> button_text \<lparr>saved_metrics = [''GDP''], saved_metrics_names = [''GDP'' \<mapsto> ''GDP''],
       saved_metrics_groups = Map.empty\<rparr> ''GDP'' = ''GDP''"
proof -
  have h: "save_metric ''GDP'' None (Some Map.empty) Written empty_store Missing =
     (\<lparr>saved_metrics = [''GDP''], saved_metrics_names = [''GDP'' \<mapsto> ''GDP''],
       saved_metrics_groups = Map.empty\<rparr>,
      Document \<lparr>json_saved_metrics = Some [''GDP''],
                json_saved_metrics_names = Some [''GDP'' \<mapsto> ''GDP''],
                json_saved_metrics_groups = Some Map.empty\<rparr>,
      [StSuccess ''Added GDP!''])"
    by (simp add: save_metric_def empty_store_def strip_GDP upper_GDP title_of_def persist_def
        save_metrics_to_file_def Let_def)
  show ?thesis using h add_gdp_to_empty_store [OF h] by (simp add: title_of_def)
qed

text \<open>The three structures of C2 as the spec lists them, with the empty name map, are not
  what the handler leaves.\<close>

theorem add_gdp_counterexample:
  "\<not> (saved_metrics (fst (save_metric ''GDP'' None (Some Map.empty) Written empty_store Missing))
        = [''GDP'']
      \<and> saved_metrics_names
          (fst (save_metric ''GDP'' None (Some Map.empty) Written empty_store Missing))
        = Map.empty
      \<and> saved_metrics_groups
          (fst (save_metric ''GDP'' None (Some Map.empty) Written empty_store Missing))
        = Map.empty)"
  by (simp add: save_metric_def empty_store_def strip_GDP upper_GDP title_of_def persist_def
      save_metrics_to_file_def Let_def)

text \<open>
  C6. For every state of the store and every identifier that is in the list (an
  identifier is not empty, has no surrounding whitespace and is in uppercase, as every
  entry that the handlers store), adding that identifier again leaves the list, the name
  map, the group map and the file as they are, whatever group is chosen and whatever
  title the API returns, and the handler warns that the metric is already saved.
\<close>

theorem readd_present_identifier:
  assumes "metric \<in> set (saved_metrics s)"
    and "metric \<noteq> []" and "upper (strip metric) = metric"
  shows "save_metric metric chosen_group series_info w s disk
         = (s, disk, [StWarning (metric @ '' already saved!'')])"
proof -
  have "strip metric \<noteq> []"
    using assms(2,3) upper_Nil_iff [of "strip metric"] by auto
  then show ?thesis
    using readd_is_rejected [of metric s chosen_group series_info w disk] assms(1,3) by simp
qed

text \<open>Adding \<^verbatim>\<open>"GDP"\<close> again, under a new group and with a title.\<close>

theorem readd_present_identifier_witness:
  "''GDP'' \<in> set [''UNRATE'', ''GDP'']
   \<and> upper (strip ''GDP'') = ''GDP''
   \<and> save_metric ''GDP'' (Some ''Output'') (Some [''title'' \<mapsto> ''Gross Domestic Product''])
       Written
       \<lparr>saved_metrics = [''UNRATE'', ''GDP''],
        saved_metrics_names = [''GDP'' \<mapsto> ''GDP''],
        saved_metrics_groups = [''UNRATE'' \<mapsto> ''Labor'']\<rparr> Missing
     = (\<lparr>saved_metrics = [''UNRATE'', ''GDP''],
         saved_metrics_names = [''GDP'' \<mapsto> ''GDP''],
         saved_metrics_groups = [''UNRATE'' \<mapsto> ''Labor'']\<rparr>, Missing,
        [StWarning ''GDP already saved!''])"
proof -
  let ?s = "\<lparr>saved_metrics = [''UNRATE'', ''GDP''],
        saved_metrics_names = [''GDP'' \<mapsto> ''GDP''],
        saved_metrics_groups = [''UNRATE'' \<mapsto> ''Labor'']\<rparr>"
  have h1: "''GDP'' \<in> set (saved_metrics ?s)" by simp
  have h2: "''GDP'' \<noteq> []" by simp
  have h3: "upper (strip ''GDP'') = ''GDP''" by (simp add: strip_GDP upper_GDP)
  from readd_present_identifier [OF h1 h2 h3, of "Some ''Output''"
      "Some [''title'' \<mapsto> ''Gross Domestic Product'']" Written Missing]
  show ?thesis using h3 by simp
qed

text \<open>
  C8, as the code has it. Every identifier that the handler puts into the list is the
  stripped, uppercased input: it is not empty, has no lowercase letter, and neither
  starts nor ends with whitespace. Inputs that differ only in the case of their letters
  or in surrounding whitespace are handled alike: same store, same file, same messages.
\<close>

theorem save_metric_normalizes:
  assumes "save_metric new_metric chosen_group series_info w s disk = (s', disk', msgs)"
  shows "(\<forall>m\<in>set (saved_metrics s'). m \<in> set (saved_metrics s) \<or>
            (m = upper (strip new_metric) \<and> m \<noteq> []
             \<and> (\<forall>c\<in>set m. c \<notin> set ascii_lowercase)
             \<and> \<not> is_space (hd m) \<and> \<not> is_space (last m)))
       \<and> (\<forall>l y r. (\<forall>c\<in>set (l @ r). is_space c) \<and> upper y = upper new_metric \<longrightarrow>
             save_metric (l @ y @ r) chosen_group series_info w s disk = (s', disk', msgs))"
proof (intro conjI ballI allI impI)
  fix m assume m: "m \<in> set (saved_metrics s')"
  have s': "saved_metrics s'
            = saved_metrics (fst (save_metric new_metric chosen_group series_info w s disk))"
    using assms by simp
  show "m \<in> set (saved_metrics s) \<or>
            (m = upper (strip new_metric) \<and> m \<noteq> []
             \<and> (\<forall>c\<in>set m. c \<notin> set ascii_lowercase)
             \<and> \<not> is_space (hd m) \<and> \<not> is_space (last m))"
  proof (cases "m \<in> set (saved_metrics s)")
    case True
    then show ?thesis by simp
  next
    case False
    with m s' have ne: "strip new_metric \<noteq> []" and eq: "m = upper (strip new_metric)"
      by (auto simp: saved_metrics_save_metric split: if_splits)
    show ?thesis
      using eq ne normal_form_ends [OF ne] upper_no_lowercase [of "strip new_metric"]
      by (simp add: upper_Nil_iff)
  qed
next
  fix l y r
  assume "(\<forall>c\<in>set (l @ r). is_space c) \<and> upper y = upper new_metric"
  then have "upper (strip (l @ y @ r)) = upper (strip new_metric)"
    using normalize_padding_case by blast
  then have "save_metric (l @ y @ r) chosen_group series_info w s disk
           = save_metric new_metric chosen_group series_info w s disk"
    by (rule save_metric_cong)
  then show "save_metric (l @ y @ r) chosen_group series_info w s disk = (s', disk', msgs)"
    using assms by simp
qed

text \<open>Adding \<^verbatim>\<open>"gdp"\<close> and adding \<^verbatim>\<open>" Gdp "\<close> to the empty store.\<close>

theorem save_metric_normalizes_witness:
  "save_metric ''gdp'' None None Written empty_store Missing =
     (\<lparr>saved_metrics = [''GDP''], saved_metrics_names = [''GDP'' \<mapsto> ''GDP''],
       saved_metrics_groups = Map.empty\<rparr>,
      Document \<lparr>json_saved_metrics = Some [''GDP''],
                json_saved_metrics_names = Some [''GDP'' \<mapsto> ''GDP''],
                json_saved_metrics_groups = Some Map.empty\<rparr>,
      [StSuccess ''Added GDP!''])
   \<and> save_metric '' Gdp '' None None Written empty_store Missing =
       save_metric ''gdp'' None None Written empty_store Missing"
proof -
  have h: "save_metric ''gdp'' None None Written empty_store Missing =
     (\<lparr>saved_metrics = [''GDP''], saved_metrics_names = [''GDP'' \<mapsto> ''GDP''],
       saved_metrics_groups = Map.empty\<rparr>,
      Document \<lparr>json_saved_metrics = Some [''GDP''],
                json_saved_metrics_names = Some [''GDP'' \<mapsto> ''GDP''],
                json_saved_metrics_groups = Some Map.empty\<rparr>,
      [StSuccess ''Added GDP!''])"
    by (simp add: save_metric_def empty_store_def strip_def is_space_def upper_gdp persist_def
        save_metrics_to_file_def Let_def)
  have pad: "(\<forall>c\<in>set ('' '' @ '' ''). is_space c) \<and> upper ''Gdp'' = upper ''gdp''"
    by (simp add: is_space_def upper_def upper_char_def ascii_lowercase_def ascii_uppercase_def)
  from save_metric_normalizes [OF h] pad
  have "save_metric ('' '' @ ''Gdp'' @ '' '') None None Written empty_store Missing =
     (\<lparr>saved_metrics = [''GDP''], saved_metrics_names = [''GDP'' \<mapsto> ''GDP''],
       saved_metrics_groups = Map.empty\<rparr>,
      Document \<lparr>json_saved_metrics = Some [''GDP''],
                json_saved_metrics_names = Some [''GDP'' \<mapsto> ''GDP''],
                json_saved_metrics_groups = Some Map.empty\<rparr>,
      [StSuccess ''Added GDP!''])"
    by blast
  then show ?thesis using h by simp
qed

text \<open>Whitespace inside the input stays: the stored identifier is not free of
  whitespace.\<close>

theorem save_metric_whitespace_counterexample:
  "saved_metrics (fst (save_metric ''a b'' None None Written empty_store Missing)) = [''A B'']
   \<and> (\<exists>c \<in> set ''A B''. is_space c)"
  by (simp add: save_metric_def empty_store_def strip_def upper_def is_space_def upper_char_def
      ascii_lowercase_def ascii_uppercase_def persist_def save_metrics_to_file_def Let_def)

text \<open>
  C10. A label that the handler writes into the group map is the stripped group input,
  and it is neither empty nor changed by stripping it again. When no group is chosen, or
  the chosen one is empty after stripping, the group map stays as it was; the form turns
  a blank new group name into no group. So a group map without empty or whitespace-only
  labels has none after the handler has run.
\<close>

theorem save_metric_group_labels:
  assumes "save_metric new_metric chosen_group series_info w s disk = (s', disk', msgs)"
  shows "(\<forall>k l. saved_metrics_groups s' k = Some l \<longrightarrow>
            saved_metrics_groups s k = Some l \<or>
            (k = upper (strip new_metric) \<and> (\<exists>g. chosen_group = Some g \<and> l = strip g)
             \<and> l \<noteq> [] \<and> strip l = l))
       \<and> ((chosen_group = None \<or> (\<exists>g. chosen_group = Some g \<and> strip g = [])) \<longrightarrow>
            saved_metrics_groups s' = saved_metrics_groups s)
       \<and> (\<forall>existing selected n. strip n = [] \<longrightarrow>
            metric_group Create_new existing selected n = None)
       \<and> ((\<forall>k l. saved_metrics_groups s k = Some l \<longrightarrow> strip l \<noteq> []) \<longrightarrow>
            (\<forall>k l. saved_metrics_groups s' k = Some l \<longrightarrow> strip l \<noteq> []))"
  using assms
  by (auto simp: save_metric_def Let_def strip_idem metric_group_def
      split: if_splits option.splits prod.splits)

text \<open>A group of two spaces, and the group \<^verbatim>\<open>" Labor "\<close>.\<close>

theorem save_metric_group_labels_witness:
  "saved_metrics_groups (fst (save_metric ''GDP'' (Some ''  '') None Written empty_store Missing))
     = Map.empty
   \<and> saved_metrics_groups
       (fst (save_metric ''GDP'' (Some '' Labor '') None Written empty_store Missing))
     = [''GDP'' \<mapsto> ''Labor'']"
proof -
  obtain s' disk' msgs
    where h: "save_metric ''GDP'' (Some ''  '') None Written empty_store Missing = (s', disk', msgs)"
    by (metis prod.exhaust)
  have blank: "strip ''  '' = []" by (simp add: strip_def is_space_def)
  from save_metric_group_labels [OF h] blank
  have "saved_metrics_groups s' = saved_metrics_groups empty_store" by blast
  then have "saved_metrics_groups s' = Map.empty"
    by (simp add: empty_store_def)
  then have 1: "saved_metrics_groups
      (fst (save_metric ''GDP'' (Some ''  '') None Written empty_store Missing)) = Map.empty"
    by (simp add: h)
  have 2: "saved_metrics_groups
       (fst (save_metric ''GDP'' (Some '' Labor '') None Written empty_store Missing))
     = [''GDP'' \<mapsto> ''Labor'']"
    by (simp add: save_metric_def empty_store_def strip_def is_space_def upper_GDP persist_def
        save_metrics_to_file_def Let_def)
  from 1 2 show ?thesis by simp
qed

subsection \<open>Removing\<close>

text \<open>
  C7, as the code has it. The delete button exists for the metrics of the list only, so
  the handler is run for identifiers of the list. It deletes the first occurrence of the
  metric from the list and its entries from the name map and from the group map, and
  persists the result, without raising; when the list has no duplicates the metric is
  gone from it; the other identifiers keep their order, and the other entries of both
  maps are unchanged.
\<close>

theorem delete_metric_present:
  assumes "metric \<in> set (saved_metrics s)"
  shows "\<exists>s' disk' msgs. delete_metric metric w s = Inr (s', disk', msgs)
     \<and> (disk', msgs) = persist w s'
     \<and> saved_metrics s' = remove1 metric (saved_metrics s)
     \<and> saved_metrics_names s' = (saved_metrics_names s)(metric := None)
     \<and> saved_metrics_groups s' = (saved_metrics_groups s)(metric := None)
     \<and> (distinct (saved_metrics s) \<longrightarrow> metric \<notin> set (saved_metrics s'))
     \<and> filter (\<lambda>k. k \<noteq> metric) (saved_metrics s') = filter (\<lambda>k. k \<noteq> metric) (saved_metrics s)
     \<and> (\<forall>k. k \<noteq> metric \<longrightarrow> saved_metrics_names s' k = saved_metrics_names s k
                          \<and> saved_metrics_groups s' k = saved_metrics_groups s k)"
  using assms
  by (cases "persist w (s\<lparr>saved_metrics := remove1 metric (saved_metrics s),
        saved_metrics_groups := (saved_metrics_groups s)(metric := None),
        saved_metrics_names := (saved_metrics_names s)(metric := None)\<rparr>)")
     (auto simp: delete_metric_def Let_def filter_remove1_other fun_upd_idem split: prod.splits)

text \<open>Deleting \<^verbatim>\<open>"GDP"\<close> from a store of two metrics.\<close>

theorem delete_metric_present_witness:
  "''GDP'' \<in> set [''GDP'', ''UNRATE'']
   \<and> (\<exists>s' disk' msgs.
        delete_metric ''GDP'' Written
          \<lparr>saved_metrics = [''GDP'', ''UNRATE''],
           saved_metrics_names = [''GDP'' \<mapsto> ''Gross Domestic Product''],
           saved_metrics_groups = [''UNRATE'' \<mapsto> ''Labor'']\<rparr> = Inr (s', disk', msgs)
        \<and> saved_metrics s' = [''UNRATE'']
        \<and> saved_metrics_names s' ''GDP'' = None
        \<and> saved_metrics_groups s' ''UNRATE'' = Some ''Labor'')"
proof -
  have h: "''GDP'' \<in> set (saved_metrics \<lparr>saved_metrics = [''GDP'', ''UNRATE''],
           saved_metrics_names = [''GDP'' \<mapsto> ''Gross Domestic Product''],
           saved_metrics_groups = [''UNRATE'' \<mapsto> ''Labor'']\<rparr>)"
    by simp
  from delete_metric_present [OF h, of Written] show ?thesis
    by (elim exE conjE) simp
qed

text \<open>The bulk import script lists one ticker under two groups and so writes it twice;
  deleting it removes the first copy from the list and its entries from both maps, and
  the identifier is still in the list.\<close>

theorem delete_duplicate_counterexample:
  "''IPG322S'' \<in> set [''IPG311S'', ''IPG322S'', ''INDPRO'', ''IPG322S'']
   \<and> delete_metric ''IPG322S'' Written
       \<lparr>saved_metrics = [''IPG311S'', ''IPG322S'', ''INDPRO'', ''IPG322S''],
        saved_metrics_names = [''IPG322S'' \<mapsto> ''Industrial Production: Paper''],
        saved_metrics_groups = [''IPG322S'' \<mapsto> ''Industrial Production'']\<rparr>
     = Inr (\<lparr>saved_metrics = [''IPG311S'', ''INDPRO'', ''IPG322S''],
             saved_metrics_names = Map.empty, saved_metrics_groups = Map.empty\<rparr>,
            Document \<lparr>json_saved_metrics = Some [''IPG311S'', ''INDPRO'', ''IPG322S''],
                      json_saved_metrics_names = Some Map.empty,
                      json_saved_metrics_groups = Some Map.empty\<rparr>, [])
   \<and> ''IPG322S'' \<in> set [''IPG311S'', ''INDPRO'', ''IPG322S'']"
  by (simp add: delete_metric_def persist_def save_metrics_to_file_def Let_def)

section \<open>Properties of the series client\<close>

lemma to_datetime_column_Inr:
  "to_datetime_column td xs = Inr ds \<Longrightarrow> list_all2 (\<lambda>x d. td x = Inr d) xs ds"
  by (induction xs arbitrary: ds) (auto split: sum.splits)

lemma dropna_set: "(d, v) \<in> set (dropna rows) \<longleftrightarrow> (d, Some v) \<in> set rows"
  by (induction rows rule: dropna.induct) auto

lemma length_dropna_zip:
  "length ds = length xs \<Longrightarrow>
   length (dropna (zip ds (map f xs))) = length (filter (\<lambda>x. f x \<noteq> None) xs)"
  by (induction ds xs rule: list_induct2) (auto split: option.splits)

lemma observations_frame_sorted:
  "observations_frame td tn obs = Inr df \<Longrightarrow> sorted (map fst df)"
  by (auto simp: observations_frame_def split: if_splits sum.splits)

lemma observations_frame_rows:
  assumes "observations_frame td tn obs = Inr df" and "(d, v) \<in> set df"
  shows "\<exists>r\<in>set obs. td (obs_date r) = Inr d \<and> tn (obs_value r) = Some v"
proof -
  from assms obtain dates where
    dates: "to_datetime_column td (map obs_date obs) = Inr dates" and
    df: "df = sort_key fst (dropna (zip dates (map (tn \<circ> obs_value) obs)))"
    by (auto simp: observations_frame_def split: if_splits sum.splits)
  from dates have all2: "list_all2 (\<lambda>x d. td x = Inr d) (map obs_date obs) dates"
    by (rule to_datetime_column_Inr)
  then have len: "length dates = length obs" by (auto dest: list_all2_lengthD)
  from assms(2) df have "(d, Some v) \<in> set (zip dates (map (tn \<circ> obs_value) obs))"
    by (simp add: dropna_set)
  then obtain i where i: "i < length obs" "dates ! i = d" "tn (obs_value (obs ! i)) = Some v"
    using len by (auto simp: in_set_zip)
  from all2 i(1) have "td (obs_date (obs ! i)) = Inr (dates ! i)"
    by (auto simp: list_all2_conv_all_nth)
  with i show ?thesis by (metis nth_mem)
qed

lemma observations_frame_length:
  assumes "to_datetime_column td (map obs_date obs) = Inr dates"
  shows "\<exists>df. observations_frame td tn obs = Inr df
           \<and> length df = length (filter (\<lambda>r. tn (obs_value r) \<noteq> None) obs)"
proof -
  from to_datetime_column_Inr [OF assms] have "length dates = length obs"
    by (auto dest: list_all2_lengthD)
  then have "length (dropna (zip dates (map (tn \<circ> obs_value) obs)))
           = length (filter (\<lambda>r. tn (obs_value r) \<noteq> None) obs)"
    using length_dropna_zip [of dates obs "tn \<circ> obs_value"] by simp
  then show ?thesis using assms by (auto simp: observations_frame_def)
qed

text \<open>
  C3. Whatever the identifier, the date bounds and the order in which the API lists the
  observations, the rows returned by \<^verbatim>\<open>get_series_data\<close> are sorted by date in
  ascending order, and every returned row is a raw observation whose value is numeric,
  with that value: an observation whose value is not numeric is not among them. When
  all dates can be read, the rows are as many as the numeric raw observations.
\<close>

theorem get_series_data_sorted_numeric:
  "sorted (map fst (fst (get_series_data api td tn sid start_date end_date)))
   \<and> (\<forall>(d, v) \<in> set (fst (get_series_data api td tn sid start_date end_date)).
        \<exists>observations. api (request_params sid start_date end_date) = Json (Some observations)
          \<and> (\<exists>r\<in>set observations. td (obs_date r) = Inr d \<and> tn (obs_value r) = Some v))
   \<and> (\<forall>observations dates.
        api (request_params sid start_date end_date) = Json (Some observations)
        \<and> to_datetime_column td (map obs_date observations) = Inr dates \<longrightarrow>
        length (fst (get_series_data api td tn sid start_date end_date))
          = length (filter (\<lambda>r. tn (obs_value r) \<noteq> None) observations))"
proof (intro conjI)
  show "sorted (map fst (fst (get_series_data api td tn sid start_date end_date)))"
    by (auto simp: get_series_data_def get_series_data_try_def observations_frame_sorted
        split: sum.splits exn.splits response.splits option.splits)
  show "\<forall>(d, v) \<in> set (fst (get_series_data api td tn sid start_date end_date)).
        \<exists>observations. api (request_params sid start_date end_date) = Json (Some observations)
          \<and> (\<exists>r\<in>set observations. td (obs_date r) = Inr d \<and> tn (obs_value r) = Some v)"
    by (auto simp: get_series_data_def get_series_data_try_def
        split: sum.splits exn.splits response.splits option.splits
        dest: observations_frame_rows)
  show "\<forall>observations dates.
        api (request_params sid start_date end_date) = Json (Some observations)
        \<and> to_datetime_column td (map obs_date observations) = Inr dates \<longrightarrow>
        length (fst (get_series_data api td tn sid start_date end_date))
          = length (filter (\<lambda>r. tn (obs_value r) \<noteq> None) observations)"
  proof (intro allI impI)
    fix observations dates
    assume a: "api (request_params sid start_date end_date) = Json (Some observations)
        \<and> to_datetime_column td (map obs_date observations) = Inr dates"
    then obtain df where "observations_frame td tn observations = Inr df"
      "length df = length (filter (\<lambda>r. tn (obs_value r) \<noteq> None) observations)"
      using observations_frame_length by blast
    with a show "length (fst (get_series_data api td tn sid start_date end_date))
          = length (filter (\<lambda>r. tn (obs_value r) \<noteq> None) observations)"
      by (simp add: get_series_data_def get_series_data_try_def)
  qed
qed

text \<open>The API answers with February, a missing value for March, and January; the two
  numeric observations come back, January first.\<close>

theorem get_series_data_sorted_numeric_witness:
  "fst (get_series_data
     (\<lambda>p. if series_id p = ''UNRATE'' \<and> observation_start p = Some ''2020-01-01''
               \<and> observation_end p = Some ''2020-03-01''
            then Json (Some [\<lparr>obs_date = ''2020-02-01'', obs_value = ''3.5''\<rparr>,
                             \<lparr>obs_date = ''2020-03-01'', obs_value = ''.''\<rparr>,
                             \<lparr>obs_date = ''2020-01-01'', obs_value = ''3.6''\<rparr>])
            else Raises (RequestException ''404''))
     (\<lambda>d. if d = ''2020-01-01'' then Inr (20200101 :: nat)
           else if d = ''2020-02-01'' then Inr 20200201
           else if d = ''2020-03-01'' then Inr 20200301 else Inl ''Unknown datetime string'')
     (\<lambda>v. if v = ''3.5'' then Some 3.5 else if v = ''3.6'' then Some 3.6 else None)
     ''UNRATE'' (Some ''2020-01-01'') (Some ''2020-03-01''))
   = [(20200101, 3.6), (20200201, 3.5)]
   \<and> sorted (map fst [(20200101 :: nat, 3.6 :: real), (20200201, 3.5)])"
proof -
  let ?api = "\<lambda>p. if series_id p = ''UNRATE'' \<and> observation_start p = Some ''2020-01-01''
               \<and> observation_end p = Some ''2020-03-01''
            then Json (Some [\<lparr>obs_date = ''2020-02-01'', obs_value = ''3.5''\<rparr>,
                             \<lparr>obs_date = ''2020-03-01'', obs_value = ''.''\<rparr>,
                             \<lparr>obs_date = ''2020-01-01'', obs_value = ''3.6''\<rparr>])
            else Raises (RequestException ''404'')"
  let ?td = "\<lambda>d. if d = ''2020-01-01'' then Inr (20200101 :: nat)
           else if d = ''2020-02-01'' then Inr 20200201
           else if d = ''2020-03-01'' then Inr 20200301 else Inl ''Unknown datetime string''"
  let ?tn = "\<lambda>v. if v = ''3.5'' then Some (3.5 :: real) else if v = ''3.6'' then Some 3.6 else None"
  have e: "fst (get_series_data ?api ?td ?tn ''UNRATE'' (Some ''2020-01-01'') (Some ''2020-03-01''))
           = [(20200101, 3.6), (20200201, 3.5)]"
    by (simp add: get_series_data_def get_series_data_try_def request_params_def truthy_def
        observations_frame_def)
  from get_series_data_sorted_numeric
         [of ?api ?td ?tn "''UNRATE''" "Some ''2020-01-01''" "Some ''2020-03-01''"]
  have "sorted (map fst (fst (get_series_data ?api ?td ?tn ''UNRATE''
           (Some ''2020-01-01'') (Some ''2020-03-01''))))"
    by (rule conjunct1)
  then show ?thesis unfolding e using e by simp
qed

text \<open>
  C4, as the code has it. \<^verbatim>\<open>get_series_data\<close> returns a data frame and the messages it
  has shown, on every answer of the API. When the request or the decoding of the answer
  raises, and when a date of the answer cannot be read, the frame is empty and the error
  is the one message shown; whenever the body of its \<^verbatim>\<open>try\<close> raises, the result is
  the empty frame with one error message; when it does not, the frame is returned with no
  message. An answer without the key \<^verbatim>\<open>observations\<close> gives the empty frame and no
  message.
\<close>

theorem get_series_data_failures:
  "(\<forall>e. api (request_params sid start_date end_date) = Raises e \<longrightarrow>
      get_series_data api td tn sid start_date end_date =
        ([], [StError (case e of RequestException t \<Rightarrow> ''Error fetching data: '' @ t
                               | Exception t \<Rightarrow> ''Error processing data: '' @ t)]))
   \<and> (\<forall>observations t.
        api (request_params sid start_date end_date) = Json (Some observations)
        \<and> to_datetime_column td (map obs_date observations) = Inl t \<longrightarrow>
        get_series_data api td tn sid start_date end_date =
          ([], [StError (''Error processing data: '' @ t)]))
   \<and> (\<forall>e. get_series_data_try api td tn sid start_date end_date = Inl e \<longrightarrow>
        (\<exists>msg. get_series_data api td tn sid start_date end_date = ([], [StError msg])))
   \<and> (\<forall>df. get_series_data_try api td tn sid start_date end_date = Inr df \<longrightarrow>
        get_series_data api td tn sid start_date end_date = (df, []))
   \<and> (api (request_params sid start_date end_date) = Json None \<longrightarrow>
        get_series_data api td tn sid start_date end_date = ([], []))"
proof (intro conjI allI impI)
  fix e assume "api (request_params sid start_date end_date) = Raises e"
  then show "get_series_data api td tn sid start_date end_date =
        ([], [StError (case e of RequestException t \<Rightarrow> ''Error fetching data: '' @ t
                               | Exception t \<Rightarrow> ''Error processing data: '' @ t)])"
    by (cases e) (simp_all add: get_series_data_def get_series_data_try_def)
next
  fix observations t
  assume a: "api (request_params sid start_date end_date) = Json (Some observations)
        \<and> to_datetime_column td (map obs_date observations) = Inl t"
  then have "observations \<noteq> []" by auto
  with a show "get_series_data api td tn sid start_date end_date =
          ([], [StError (''Error processing data: '' @ t)])"
    by (simp add: get_series_data_def get_series_data_try_def observations_frame_def)
next
  fix e assume "get_series_data_try api td tn sid start_date end_date = Inl e"
  then show "\<exists>msg. get_series_data api td tn sid start_date end_date = ([], [StError msg])"
    by (cases e) (simp_all add: get_series_data_def)
next
  fix df assume "get_series_data_try api td tn sid start_date end_date = Inr df"
  then show "get_series_data api td tn sid start_date end_date = (df, [])"
    by (simp add: get_series_data_def)
next
  assume "api (request_params sid start_date end_date) = Json None"
  then show "get_series_data api td tn sid start_date end_date = ([], [])"
    by (simp add: get_series_data_def get_series_data_try_def)
qed

text \<open>A refused connection, and an answer with an unreadable date.\<close>

theorem get_series_data_failures_witness:
  "get_series_data (\<lambda>p. Raises (RequestException ''Connection refused''))
     (\<lambda>d. Inr (0 :: nat)) (\<lambda>v. None) ''GDP'' None None
   = ([], [StError ''Error fetching data: Connection refused''])
   \<and> get_series_data
       (\<lambda>p. Json (Some [\<lparr>obs_date = ''tomorrow'', obs_value = ''1.0''\<rparr>]))
       (\<lambda>d. Inl ''Unknown datetime string'' :: string + nat) (\<lambda>v. Some 1) ''GDP'' None None
   = ([], [StError ''Error processing data: Unknown datetime string''])"
proof -
  have 1: "get_series_data (\<lambda>p. Raises (RequestException ''Connection refused''))
     (\<lambda>d. Inr (0 :: nat)) (\<lambda>v. None) ''GDP'' None None
   = ([], [StError ''Error fetching data: Connection refused''])"
    using get_series_data_failures
      [of "\<lambda>p. Raises (RequestException ''Connection refused'')" "''GDP''" None None
          "\<lambda>d. Inr (0 :: nat)" "\<lambda>v. None"]
    by simp
  have 2: "get_series_data
       (\<lambda>p. Json (Some [\<lparr>obs_date = ''tomorrow'', obs_value = ''1.0''\<rparr>]))
       (\<lambda>d. Inl ''Unknown datetime string'' :: string + nat) (\<lambda>v. Some 1) ''GDP'' None None
   = ([], [StError ''Error processing data: Unknown datetime string''])"
    using get_series_data_failures
      [of "\<lambda>p. Json (Some [\<lparr>obs_date = ''tomorrow'', obs_value = ''1.0''\<rparr>])" "''GDP''" None None
          "\<lambda>d. Inl ''Unknown datetime string'' :: string + nat" "\<lambda>v. Some 1"]
    by simp
  from 1 2 show ?thesis by simp
qed

text \<open>An answer without observations is not reported to the user.\<close>

theorem get_series_data_no_message_counterexample:
  "get_series_data (\<lambda>p. Json None) (\<lambda>d. Inr (0 :: nat)) (\<lambda>v. None) ''GDP'' None None
   = ([], [])"
  by (simp add: get_series_data_def get_series_data_try_def)

section \<open>Properties of the summary table\<close>

text \<open>The marker stands in the sequential-change cell exactly when the series has
  fewer than two observations.\<close>

lemma sequential_change_na_only_if:
  "Sequential_Change (summary_row use_percentage ytd_start names metric metric_df metric_info)
     = Text ''N/A'' \<Longrightarrow> length metric_df < 2"
  by (cases "2 \<le> length metric_df") (auto simp: summary_row_def Let_def split: if_splits)

lemma summary_row_insufficient_history:
  "length metric_df < 2 \<Longrightarrow>
   Sequential_Change (summary_row use_percentage ytd_start names metric metric_df metric_info)
     = Text ''N/A''"
  by (simp add: summary_row_def)

text \<open>
  C1, as the code has it. For a series of at least two observations whose previous
  observation (the last but one by date) has the value 0, the sequential change is never
  the \<^verbatim>\<open>N/A\<close> marker: in percentage mode too the cell holds the absolute difference
  between the latest and the previous value, printed with two decimals and no percent
  sign. Nothing fails.
\<close>

theorem sequential_change_zero_previous:
  assumes "2 \<le> length metric_df"
    and "snd (sort_key fst metric_df ! (length metric_df - 2)) = 0"
  shows "Sequential_Change (summary_row use_percentage ytd_start names metric metric_df metric_info)
           = Fixed2 (snd (last (sort_key fst metric_df))
                     - snd (sort_key fst metric_df ! (length metric_df - 2)))
       \<and> Sequential_Change (summary_row use_percentage ytd_start names metric metric_df metric_info)
           \<noteq> Text ''N/A''"
  using assms by (auto simp: summary_row_def Let_def)

text \<open>A series going from 0 to 5, in percentage mode.\<close>

theorem sequential_change_zero_previous_witness:
  "2 \<le> length [(2 :: nat, 5 :: real), (1, 0)]
   \<and> snd (sort_key fst [(2 :: nat, 5 :: real), (1, 0)] ! (length [(2 :: nat, 5 :: real), (1, 0)] - 2)) = 0
   \<and> Sequential_Change (summary_row True 0 Map.empty ''GDP'' [(2 :: nat, 5), (1, 0)] Map.empty)
       = Fixed2 5"
proof -
  have h1: "2 \<le> length [(2 :: nat, 5 :: real), (1, 0)]" by simp
  have h2: "snd (sort_key fst [(2 :: nat, 5 :: real), (1, 0)]
                  ! (length [(2 :: nat, 5 :: real), (1, 0)] - 2)) = 0"
    by simp
  have l: "snd (last (sort_key fst [(2 :: nat, 5 :: real), (1, 0)])) = 5" by simp
  from sequential_change_zero_previous [OF h1 h2, of True 0 Map.empty "''GDP''" Map.empty]
  show ?thesis using h1 h2 l by simp
qed

text \<open>The cell is a number, not the marker.\<close>

theorem sequential_change_counterexample:
  "Sequential_Change (summary_row True (0 :: nat) Map.empty ''GDP'' [(1, 0), (2, 5)] Map.empty)
     = Fixed2 5
   \<and> Sequential_Change (summary_row True (0 :: nat) Map.empty ''GDP'' [(1, 0), (2, 5)] Map.empty)
     \<noteq> Text ''N/A''"
  by (simp add: summary_row_def Let_def)

end
